theory Spec2Isabelle
  imports Complex_Main
begin

section \<open>JavaScript numbers\<close>

text \<open>
  Every numeric field of the client (\<open>quantity\<close>, \<open>amount\<close>, \<open>id\<close>, ...) is a JavaScript
  \<open>number\<close>. The model keeps the special values of that type, because the reducers divide
  without checking the divisor: a finite value is an exact rational, and next to it there
  are negative zero, the two infinities and NaN. \<open>Fin 0\<close> is positive zero. Rounding of a
  finite result to the nearest double (and overflow of a finite result) is not modelled;
  the theorems below only state facts that do not depend on it.
\<close>

datatype jsnum = Fin rat | NZero | PInf | NInf | NaN

fun val :: "jsnum \<Rightarrow> rat" where
  "val (Fin r) = r"
| "val _ = 0"

fun is_zero :: "jsnum \<Rightarrow> bool" where
  "is_zero (Fin r) = (r = 0)"
| "is_zero NZero = True"
| "is_zero _ = False"

fun is_inf :: "jsnum \<Rightarrow> bool" where
  "is_inf PInf = True"
| "is_inf NInf = True"
| "is_inf _ = False"

fun is_neg :: "jsnum \<Rightarrow> bool" where
  "is_neg (Fin r) = (r < 0)"
| "is_neg NZero = True"
| "is_neg NInf = True"
| "is_neg _ = False"

definition signed_zero :: "bool \<Rightarrow> jsnum" where
  "signed_zero neg = (if neg then NZero else Fin 0)"

definition signed_inf :: "bool \<Rightarrow> jsnum" where
  "signed_inf neg = (if neg then NInf else PInf)"

text \<open>\<open>a + b\<close>\<close>

fun jadd :: "jsnum \<Rightarrow> jsnum \<Rightarrow> jsnum" where
  "jadd NaN _ = NaN"
| "jadd _ NaN = NaN"
| "jadd PInf NInf = NaN"
| "jadd NInf PInf = NaN"
| "jadd PInf _ = PInf"
| "jadd _ PInf = PInf"
| "jadd NInf _ = NInf"
| "jadd _ NInf = NInf"
| "jadd NZero NZero = NZero"
| "jadd NZero (Fin b) = Fin b"
| "jadd (Fin a) NZero = Fin a"
| "jadd (Fin a) (Fin b) = Fin (a + b)"

text \<open>Unary minus; \<open>a - b\<close> is \<open>a + (-b)\<close>.\<close>

fun jneg :: "jsnum \<Rightarrow> jsnum" where
  "jneg (Fin r) = (if r = 0 then NZero else Fin (- r))"
| "jneg NZero = Fin 0"
| "jneg PInf = NInf"
| "jneg NInf = PInf"
| "jneg NaN = NaN"

definition jsub :: "jsnum \<Rightarrow> jsnum \<Rightarrow> jsnum" where
  "jsub a b = jadd a (jneg b)"

text \<open>\<open>a * b\<close>\<close>

definition jmul :: "jsnum \<Rightarrow> jsnum \<Rightarrow> jsnum" where
  "jmul a b =
     (if a = NaN \<or> b = NaN then NaN
      else if (is_inf a \<and> is_zero b) \<or> (is_zero a \<and> is_inf b) then NaN
      else if is_inf a \<or> is_inf b then signed_inf (is_neg a \<noteq> is_neg b)
      else if is_zero a \<or> is_zero b then signed_zero (is_neg a \<noteq> is_neg b)
      else Fin (val a * val b))"

text \<open>\<open>a / b\<close>: never raises; a zero divisor gives NaN or an infinity.\<close>

definition jdiv :: "jsnum \<Rightarrow> jsnum \<Rightarrow> jsnum" where
  "jdiv a b =
     (if a = NaN \<or> b = NaN then NaN
      else if (is_inf a \<and> is_inf b) \<or> (is_zero a \<and> is_zero b) then NaN
      else if is_inf a \<or> is_zero b then signed_inf (is_neg a \<noteq> is_neg b)
      else if is_inf b \<or> is_zero a then signed_zero (is_neg a \<noteq> is_neg b)
      else Fin (val a / val b))"

text \<open>\<open>a > b\<close>: false as soon as one side is NaN; the two zeros compare equal.\<close>

definition jgt :: "jsnum \<Rightarrow> jsnum \<Rightarrow> bool" where
  "jgt a b =
     (if a = NaN \<or> b = NaN then False
      else if a = PInf then b \<noteq> PInf
      else if b = NInf then a \<noteq> NInf
      else if a = NInf \<or> b = PInf then False
      else val a > val b)"

text \<open>\<open>a === b\<close> on numbers: NaN equals nothing, the two zeros are equal.\<close>

definition jseq :: "jsnum \<Rightarrow> jsnum \<Rightarrow> bool" where
  "jseq a b = (a \<noteq> NaN \<and> b \<noteq> NaN \<and> (a = b \<or> (is_zero a \<and> is_zero b)))"

text \<open>\<open>Math.min(a, b)\<close>: NaN if one argument is; negative zero is below positive zero.\<close>

definition Math_min :: "jsnum \<Rightarrow> jsnum \<Rightarrow> jsnum" where
  "Math_min a b =
     (if a = NaN \<or> b = NaN then NaN
      else if jgt a b then b
      else if jgt b a then a
      else if a = NZero \<or> b = NZero then NZero
      else a)"

section \<open>Shared shapes\<close>

text \<open>
  A property declared \<open>f?: T | null\<close> has three states: the key is missing, it holds
  \<open>null\<close>, or it holds a value. An object spread copies only the keys that exist.
\<close>

datatype 'a nullable = Undefined | Null | Value 'a

text \<open>The four properties every stored entity carries (\<open>id\<close> is named \<open>id_field\<close> here,
  and \<open>notes\<close> of an investment \<open>notes_field\<close>).\<close>

record Entity =
  id_field :: jsnum
  user_id :: jsnum
  created_at :: string
  updated_at :: "string nullable"

text \<open>Every slice state carries \<open>loading\<close> and \<open>error\<close> (\<open>null\<close> is \<open>None\<close>).\<close>

record AsyncStatus =
  loading :: bool
  error :: "string option"

text \<open>
  The three actions \<open>createAsyncThunk\<close> dispatches. A rejection carries the value given to
  \<open>rejectWithValue\<close>, which the reducers read as a string.
\<close>

datatype 'a thunk = Pending | Fulfilled 'a | Rejected string

section \<open>The investments slice\<close>

record Investment = Entity +
  ticker :: string
  quantity :: jsnum
  avg_buy_price :: jsnum
  asset_type :: string
  purchase_date :: "string nullable"
  notes_field :: "string nullable"

record InvestmentWithMarketData = Investment +
  current_price :: jsnum
  market_value :: jsnum
  profit_loss :: jsnum
  profit_loss_percentage :: jsnum
  last_updated :: string
  market_error :: "string option"

record InvestmentsState = AsyncStatus +
  investments :: "Investment list"
  portfolioWithMarketData :: "InvestmentWithMarketData list"
  investment :: "Investment option"

definition investments_initialState :: InvestmentsState where
  "investments_initialState =
     \<lparr>loading = False, error = None, investments = [], portfolioWithMarketData = [],
      investment = None\<rparr>"

datatype InvestmentsAction =
    clearInvestmentError
  | clearCurrentInvestment
  | getInvestments "Investment list thunk"
  | getPortfolioWithMarketData "InvestmentWithMarketData list thunk"
  | getInvestment "Investment thunk"
  | createInvestment "Investment thunk"
  | updateInvestment "Investment thunk"
  | deleteInvestment "jsnum thunk"

text \<open>\<open>state.investment?.id === x\<close>: false when no investment is selected.\<close>

definition current_investment_is :: "InvestmentsState \<Rightarrow> jsnum \<Rightarrow> bool" where
  "current_investment_is s x =
     (case investment s of None \<Rightarrow> False | Some i \<Rightarrow> jseq (id_field i) x)"

text \<open>
  The body of the \<open>map\<close> callback over \<open>portfolioWithMarketData\<close> in
  \<open>updateInvestment.fulfilled\<close>. The new object is the spread of the payload followed by
  the five market fields, so an \<open>error\<close> key of the old entry is not carried over.
\<close>

definition recalculate :: "Investment \<Rightarrow> InvestmentWithMarketData \<Rightarrow> InvestmentWithMarketData" where
  "recalculate p entry =
     (if jseq (id_field entry) (id_field p) then
        (let currentPrice = current_price entry;
             marketValue = jmul (quantity p) currentPrice;
             costBasis = jmul (quantity p) (avg_buy_price p);
             profitLoss = jsub marketValue costBasis;
             profitLossPercentage = jmul (jdiv profitLoss costBasis) (Fin 100)
         in \<lparr>id_field = id_field p, user_id = user_id p, created_at = created_at p,
             updated_at = updated_at p, ticker = ticker p, quantity = quantity p,
             avg_buy_price = avg_buy_price p, asset_type = asset_type p,
             purchase_date = purchase_date p, notes_field = notes_field p,
             current_price = currentPrice, market_value = marketValue,
             profit_loss = profitLoss, profit_loss_percentage = profitLossPercentage,
             last_updated = last_updated entry, market_error = None\<rparr>)
      else entry)"

fun investmentsReducer :: "InvestmentsState \<Rightarrow> InvestmentsAction \<Rightarrow> InvestmentsState" where
  "investmentsReducer s clearInvestmentError = s\<lparr>error := None\<rparr>"
| "investmentsReducer s clearCurrentInvestment = s\<lparr>investment := None\<rparr>"
| "investmentsReducer s (getInvestments Pending) = s\<lparr>loading := True, error := None\<rparr>"
| "investmentsReducer s (getInvestments (Fulfilled xs)) =
     s\<lparr>loading := False, investments := xs\<rparr>"
| "investmentsReducer s (getInvestments (Rejected e)) =
     s\<lparr>loading := False, error := Some e\<rparr>"
| "investmentsReducer s (getPortfolioWithMarketData Pending) =
     s\<lparr>loading := True, error := None\<rparr>"
| "investmentsReducer s (getPortfolioWithMarketData (Fulfilled xs)) =
     s\<lparr>loading := False, portfolioWithMarketData := xs\<rparr>"
| "investmentsReducer s (getPortfolioWithMarketData (Rejected e)) =
     s\<lparr>loading := False, error := Some e\<rparr>"
| "investmentsReducer s (getInvestment Pending) = s\<lparr>loading := True, error := None\<rparr>"
| "investmentsReducer s (getInvestment (Fulfilled p)) =
     s\<lparr>loading := False, investment := Some p\<rparr>"
| "investmentsReducer s (getInvestment (Rejected e)) =
     s\<lparr>loading := False, error := Some e\<rparr>"
| "investmentsReducer s (createInvestment Pending) = s\<lparr>loading := True, error := None\<rparr>"
| "investmentsReducer s (createInvestment (Fulfilled p)) =
     s\<lparr>loading := False, investments := investments s @ [p]\<rparr>"
| "investmentsReducer s (createInvestment (Rejected e)) =
     s\<lparr>loading := False, error := Some e\<rparr>"
| "investmentsReducer s (updateInvestment Pending) = s\<lparr>loading := True, error := None\<rparr>"
| "investmentsReducer s (updateInvestment (Fulfilled p)) =
     s\<lparr>loading := False,
       investment := (if current_investment_is s (id_field p) then Some p else investment s),
       investments :=
         map (\<lambda>i. if jseq (id_field i) (id_field p) then p else i) (investments s),
       portfolioWithMarketData := map (recalculate p) (portfolioWithMarketData s)\<rparr>"
| "investmentsReducer s (updateInvestment (Rejected e)) =
     s\<lparr>loading := False, error := Some e\<rparr>"
| "investmentsReducer s (deleteInvestment Pending) = s\<lparr>loading := True, error := None\<rparr>"
| "investmentsReducer s (deleteInvestment (Fulfilled x)) =
     s\<lparr>loading := False,
       investment := (if current_investment_is s x then None else investment s),
       investments := filter (\<lambda>i. \<not> jseq (id_field i) x) (investments s),
       portfolioWithMarketData :=
         filter (\<lambda>i. \<not> jseq (id_field i) x) (portfolioWithMarketData s)\<rparr>"
| "investmentsReducer s (deleteInvestment (Rejected e)) =
     s\<lparr>loading := False, error := Some e\<rparr>"

section \<open>The budgets slice\<close>

record Budget = Entity +
  category_id :: jsnum
  amount :: jsnum
  month :: jsnum
  year :: jsnum

record BudgetWithCategory = Budget +
  category_name :: string

record BudgetWithProgress = BudgetWithCategory +
  spent_amount :: jsnum
  remaining_amount :: jsnum
  percentage_used :: jsnum

record BudgetsState = AsyncStatus +
  budgets :: "BudgetWithCategory list"
  budgetsWithProgress :: "BudgetWithProgress list"
  budget :: "BudgetWithCategory option"

definition budgets_initialState :: BudgetsState where
  "budgets_initialState =
     \<lparr>loading = False, error = None, budgets = [], budgetsWithProgress = [], budget = None\<rparr>"

datatype BudgetsAction =
    clearBudgetError
  | clearCurrentBudget
  | getBudgets "BudgetWithCategory list thunk"
  | getBudgetsWithProgress "BudgetWithProgress list thunk"
  | getBudget "BudgetWithCategory thunk"
  | createBudget "Budget thunk"
  | updateBudget "Budget thunk"
  | deleteBudget "jsnum thunk"

text \<open>
  \<open>{ ...budget, ...action.payload }\<close>: every key of the payload overwrites the same key of
  the stored object; the keys the payload does not have (\<open>category_name\<close>, the three
  progress fields, and \<open>updated_at\<close> when the payload omits it) keep the stored value.
\<close>

definition spread_budget :: "'a Budget_scheme \<Rightarrow> Budget \<Rightarrow> 'a Budget_scheme" where
  "spread_budget b p =
     b\<lparr>id_field := id_field p, user_id := user_id p, created_at := created_at p,
       updated_at := (case updated_at p of Undefined \<Rightarrow> updated_at b | v \<Rightarrow> v),
       category_id := category_id p, amount := amount p, month := month p, year := year p\<rparr>"

definition merge_budget :: "Budget \<Rightarrow> 'a Budget_scheme \<Rightarrow> 'a Budget_scheme" where
  "merge_budget p b = (if jseq (id_field b) (id_field p) then spread_budget b p else b)"

fun budgetsReducer :: "BudgetsState \<Rightarrow> BudgetsAction \<Rightarrow> BudgetsState" where
  "budgetsReducer s clearBudgetError = s\<lparr>error := None\<rparr>"
| "budgetsReducer s clearCurrentBudget = s\<lparr>budget := None\<rparr>"
| "budgetsReducer s (getBudgets Pending) = s\<lparr>loading := True, error := None\<rparr>"
| "budgetsReducer s (getBudgets (Fulfilled xs)) = s\<lparr>loading := False, budgets := xs\<rparr>"
| "budgetsReducer s (getBudgets (Rejected e)) = s\<lparr>loading := False, error := Some e\<rparr>"
| "budgetsReducer s (getBudgetsWithProgress Pending) = s\<lparr>loading := True, error := None\<rparr>"
| "budgetsReducer s (getBudgetsWithProgress (Fulfilled xs)) =
     s\<lparr>loading := False, budgetsWithProgress := xs\<rparr>"
| "budgetsReducer s (getBudgetsWithProgress (Rejected e)) =
     s\<lparr>loading := False, error := Some e\<rparr>"
| "budgetsReducer s (getBudget Pending) = s\<lparr>loading := True, error := None\<rparr>"
| "budgetsReducer s (getBudget (Fulfilled p)) = s\<lparr>loading := False, budget := Some p\<rparr>"
| "budgetsReducer s (getBudget (Rejected e)) = s\<lparr>loading := False, error := Some e\<rparr>"
| "budgetsReducer s (createBudget Pending) = s\<lparr>loading := True, error := None\<rparr>"
| "budgetsReducer s (createBudget (Fulfilled p)) = s\<lparr>loading := False\<rparr>"
| "budgetsReducer s (createBudget (Rejected e)) = s\<lparr>loading := False, error := Some e\<rparr>"
| "budgetsReducer s (updateBudget Pending) = s\<lparr>loading := True, error := None\<rparr>"
| "budgetsReducer s (updateBudget (Fulfilled p)) =
     s\<lparr>loading := False,
       budget := (case budget s of None \<Rightarrow> None | Some b \<Rightarrow> Some (merge_budget p b)),
       budgets := map (merge_budget p) (budgets s),
       budgetsWithProgress := map (merge_budget p) (budgetsWithProgress s)\<rparr>"
| "budgetsReducer s (updateBudget (Rejected e)) = s\<lparr>loading := False, error := Some e\<rparr>"
| "budgetsReducer s (deleteBudget Pending) = s\<lparr>loading := True, error := None\<rparr>"
| "budgetsReducer s (deleteBudget (Fulfilled x)) =
     s\<lparr>loading := False,
       budget := (case budget s of None \<Rightarrow> None
                  | Some b \<Rightarrow> if jseq (id_field b) x then None else Some b),
       budgets := filter (\<lambda>b. \<not> jseq (id_field b) x) (budgets s),
       budgetsWithProgress := filter (\<lambda>b. \<not> jseq (id_field b) x) (budgetsWithProgress s)\<rparr>"
| "budgetsReducer s (deleteBudget (Rejected e)) = s\<lparr>loading := False, error := Some e\<rparr>"

text \<open>The relation between the three amounts of a progress entry.\<close>

definition remaining_consistent :: "BudgetWithProgress \<Rightarrow> bool" where
  "remaining_consistent b = (remaining_amount b = jsub (amount b) (spent_amount b))"

section \<open>The goals slice\<close>

record Goal = Entity +
  name :: string
  description :: "string option"
  target_amount :: jsnum
  current_amount :: jsnum
  deadline :: "string nullable"
  status :: string

record GoalWithProgress = Goal +
  progress_percentage :: jsnum

record GoalsState = AsyncStatus +
  goals :: "GoalWithProgress list"
  goal :: "GoalWithProgress option"

definition goals_initialState :: GoalsState where
  "goals_initialState = \<lparr>loading = False, error = None, goals = [], goal = None\<rparr>"

datatype GoalsAction =
    clearGoalError
  | clearCurrentGoal
  | getGoals "GoalWithProgress list thunk"
  | getGoal "GoalWithProgress thunk"
  | createGoal "Goal thunk"
  | updateGoal "Goal thunk"
  | deleteGoal "jsnum thunk"

text \<open>
  \<open>target_amount > 0 ? (current_amount / target_amount) * 100 : 0\<close>, the same expression in
  \<open>createGoal.fulfilled\<close> and \<open>updateGoal.fulfilled\<close>.
\<close>

definition progressPercentage :: "Goal \<Rightarrow> jsnum" where
  "progressPercentage p =
     (if jgt (target_amount p) (Fin 0)
      then jmul (jdiv (current_amount p) (target_amount p)) (Fin 100)
      else Fin 0)"

text \<open>\<open>{ ...action.payload, progress_percentage: progressPercentage }\<close>\<close>

definition with_progress :: "Goal \<Rightarrow> GoalWithProgress" where
  "with_progress p =
     \<lparr>id_field = id_field p, user_id = user_id p, created_at = created_at p,
      updated_at = updated_at p, name = name p, description = description p,
      target_amount = target_amount p, current_amount = current_amount p,
      deadline = deadline p, status = status p,
      progress_percentage = progressPercentage p\<rparr>"

fun goalsReducer :: "GoalsState \<Rightarrow> GoalsAction \<Rightarrow> GoalsState" where
  "goalsReducer s clearGoalError = s\<lparr>error := None\<rparr>"
| "goalsReducer s clearCurrentGoal = s\<lparr>goal := None\<rparr>"
| "goalsReducer s (getGoals Pending) = s\<lparr>loading := True, error := None\<rparr>"
| "goalsReducer s (getGoals (Fulfilled xs)) = s\<lparr>loading := False, goals := xs\<rparr>"
| "goalsReducer s (getGoals (Rejected e)) = s\<lparr>loading := False, error := Some e\<rparr>"
| "goalsReducer s (getGoal Pending) = s\<lparr>loading := True, error := None\<rparr>"
| "goalsReducer s (getGoal (Fulfilled g)) = s\<lparr>loading := False, goal := Some g\<rparr>"
| "goalsReducer s (getGoal (Rejected e)) = s\<lparr>loading := False, error := Some e\<rparr>"
| "goalsReducer s (createGoal Pending) = s\<lparr>loading := True, error := None\<rparr>"
| "goalsReducer s (createGoal (Fulfilled p)) =
     s\<lparr>loading := False, goals := goals s @ [with_progress p]\<rparr>"
| "goalsReducer s (createGoal (Rejected e)) = s\<lparr>loading := False, error := Some e\<rparr>"
| "goalsReducer s (updateGoal Pending) = s\<lparr>loading := True, error := None\<rparr>"
| "goalsReducer s (updateGoal (Fulfilled p)) =
     s\<lparr>loading := False,
       goal := (case goal s of None \<Rightarrow> None
                | Some g \<Rightarrow> if jseq (id_field g) (id_field p) then Some (with_progress p)
                            else Some g),
       goals := map (\<lambda>g. if jseq (id_field g) (id_field p) then with_progress p else g)
                  (goals s)\<rparr>"
| "goalsReducer s (updateGoal (Rejected e)) = s\<lparr>loading := False, error := Some e\<rparr>"
| "goalsReducer s (deleteGoal Pending) = s\<lparr>loading := True, error := None\<rparr>"
| "goalsReducer s (deleteGoal (Fulfilled x)) =
     s\<lparr>loading := False,
       goal := (case goal s of None \<Rightarrow> None
                | Some g \<Rightarrow> if jseq (id_field g) x then None else Some g),
       goals := filter (\<lambda>g. \<not> jseq (id_field g) x) (goals s)\<rparr>"
| "goalsReducer s (deleteGoal (Rejected e)) = s\<lparr>loading := False, error := Some e\<rparr>"

section \<open>The pages\<close>

text \<open>
  A transaction as the two pages read it. The slice's interface declares \<open>is_income\<close> and no
  \<open>type\<close>; the pages compare \<open>t.type\<close> with \<open>'income'\<close> and \<open>'expense'\<close>, so \<open>tx_type\<close> is the
  value of that property, \<open>None\<close> on an object that has no such key (the comparison is then
  false). \<open>tx_amount\<close> is \<open>amount\<close>.
\<close>

record Transaction = Entity +
  tx_amount :: jsnum
  is_income :: bool
  tx_type :: "string option"

text \<open>\<open>list.filter(t => t.type === k).reduce((sum, t) => sum + t.amount, 0)\<close>\<close>

definition total_of_type :: "string \<Rightarrow> Transaction list \<Rightarrow> jsnum" where
  "total_of_type k ts =
     foldl (\<lambda>sum t. jadd sum (tx_amount t)) (Fin 0) (filter (\<lambda>t. tx_type t = Some k) ts)"

subsection \<open>Transactions page\<close>

text \<open>The totals of the Transactions page, over \<open>filteredTransactions\<close>.\<close>

definition Transactions_totalIncome :: "Transaction list \<Rightarrow> jsnum" where
  "Transactions_totalIncome filteredTransactions = total_of_type ''income'' filteredTransactions"

definition Transactions_totalExpense :: "Transaction list \<Rightarrow> jsnum" where
  "Transactions_totalExpense filteredTransactions =
     total_of_type ''expense'' filteredTransactions"

definition Transactions_netAmount :: "Transaction list \<Rightarrow> jsnum" where
  "Transactions_netAmount filteredTransactions =
     jsub (Transactions_totalIncome filteredTransactions)
          (Transactions_totalExpense filteredTransactions)"

subsection \<open>Dashboard\<close>

text \<open>The five \<open>useState\<close> cells of the Dashboard, each initialised with 0.\<close>

record Summary =
  totalIncome :: jsnum
  totalExpense :: jsnum
  netSavings :: jsnum
  totalPortfolioValue :: jsnum
  totalPortfolioProfit :: jsnum

definition Summary_initial :: Summary where
  "Summary_initial =
     \<lparr>totalIncome = Fin 0, totalExpense = Fin 0, netSavings = Fin 0,
      totalPortfolioValue = Fin 0, totalPortfolioProfit = Fin 0\<rparr>"

text \<open>
  One run of the second \<open>useEffect\<close>: the setters are called only inside the two
  \<open>length > 0\<close> tests.
\<close>

definition summary_effect ::
  "Transaction list \<Rightarrow> InvestmentWithMarketData list \<Rightarrow> Summary \<Rightarrow> Summary" where
  "summary_effect transactions portfolio st =
     (let st1 =
        (if length transactions > 0 then
           (let income = total_of_type ''income'' transactions;
                expense = total_of_type ''expense'' transactions
            in st\<lparr>totalIncome := income, totalExpense := expense,
                  netSavings := jsub income expense\<rparr>)
         else st)
      in if length portfolio > 0 then
           (let portfolioValue = foldl (\<lambda>sum i. jadd sum (market_value i)) (Fin 0) portfolio;
                portfolioProfit = foldl (\<lambda>sum i. jadd sum (profit_loss i)) (Fin 0) portfolio
            in st1\<lparr>totalPortfolioValue := portfolioValue,
                   totalPortfolioProfit := portfolioProfit\<rparr>)
         else st1)"

text \<open>
  Text the page builds from a number. \<open>Plain s\<close> is the string \<open>s\<close>. Where the page turns a
  number into text with \<open>Number::toString\<close> (a template literal, or \<open>toFixed\<close> from
  \<open>10^21\<close> on), the digits depend on the shortest decimal form of the double and are not
  spelled out: \<open>AroundToString pre x post\<close> is \<open>pre\<close>, then \<open>Number::toString(x)\<close>, then
  \<open>post\<close>.
\<close>

datatype js_text = Plain string | AroundToString string jsnum string

fun text_append :: "js_text \<Rightarrow> string \<Rightarrow> js_text" where
  "text_append (Plain s) t = Plain (s @ t)"
| "text_append (AroundToString pre x post) t = AroundToString pre x (post @ t)"

text \<open>The decimal digits of a natural number, \<open>0\<close> for zero.\<close>

fun digits :: "nat \<Rightarrow> string" where
  "digits n =
     (if n < 10 then [''0123456789'' ! n]
      else digits (n div 10) @ [''0123456789'' ! (n mod 10)])"

declare digits.simps [simp del]

text \<open>
  \<open>x.toFixed(0)\<close>, following the language definition: a value that is not finite is
  printed by name; otherwise the sign is split off (negative zero has none), a magnitude
  from \<open>10^21\<close> on goes to \<open>Number::toString\<close>, and a smaller one is printed as the integer
  \<open>n\<close> nearest to it, the larger one when two are equally near.
\<close>

fun toFixed0 :: "jsnum \<Rightarrow> js_text" where
  "toFixed0 NaN = Plain ''NaN''"
| "toFixed0 PInf = Plain ''Infinity''"
| "toFixed0 NInf = Plain ''-Infinity''"
| "toFixed0 NZero = Plain ''0''"
| "toFixed0 (Fin r) =
     (let s = (if r < 0 then ''-'' else []);
          x = \<bar>r\<bar>
      in if x \<ge> 10 ^ 21 then AroundToString s (Fin x) []
         else Plain (s @ digits (nat \<lfloor>x + 1 / 2\<rfloor>)))"

text \<open>Reading a string of decimal digits back as a number.\<close>

definition value_of_digits :: "string \<Rightarrow> nat" where
  "value_of_digits s = foldl (\<lambda>a c. 10 * a + (of_char c - 48)) 0 s"

text \<open>
  The Budget Progress panel. A card holds what the JSX puts on the page for one budget:
  \<open>used_text\<close> is \<open>{budget.percentage_used.toFixed(0)}% used\<close>, \<open>bar_width\<close> the \<open>width\<close>
  style built from \<open>Math.min(budget.percentage_used, 100)\<close> and a percent sign,
  \<open>bar_class\<close> the colour class of the bar. The three amounts go through
  \<open>formatCurrency\<close> (\<open>Intl.NumberFormat\<close>), which is not modelled: the card keeps the number
  handed to it.
\<close>

record BudgetCard =
  card_key :: jsnum
  card_category_name :: string
  formatCurrency_spent :: jsnum
  formatCurrency_amount :: jsnum
  bar_class :: string
  bar_width :: js_text
  used_text :: js_text
  formatCurrency_remaining :: jsnum

datatype BudgetPanel = LoadingBudgets | NoBudgets | Cards "BudgetCard list"

definition budget_card :: "BudgetWithProgress \<Rightarrow> BudgetCard" where
  "budget_card b =
     \<lparr>card_key = id_field b, card_category_name = category_name b,
      formatCurrency_spent = spent_amount b, formatCurrency_amount = amount b,
      bar_class = (if jgt (percentage_used b) (Fin 100) then ''bg-red-600''
                   else if jgt (percentage_used b) (Fin 80) then ''bg-yellow-500''
                   else ''bg-green-500''),
      bar_width = AroundToString [] (Math_min (percentage_used b) (Fin 100)) ''%'',
      used_text = text_append (toFixed0 (percentage_used b)) ''% used'',
      formatCurrency_remaining = remaining_amount b\<rparr>"

definition budget_panel :: "bool \<Rightarrow> BudgetWithProgress list \<Rightarrow> BudgetPanel" where
  "budget_panel budgetsLoading bwp =
     (if budgetsLoading then LoadingBudgets
      else if length bwp = 0 then NoBudgets
      else Cards (map budget_card (take 3 bwp)))"

text \<open>The cards of a panel; the two placeholder panels show none.\<close>

fun cards_of :: "BudgetPanel \<Rightarrow> BudgetCard list" where
  "cards_of (Cards cs) = cs"
| "cards_of _ = []"

section \<open>The sum the specification describes\<close>

text \<open>
  The specification words the spent amount as the sum of the amounts of the entries of one
  type. \<open>spec_sum_of_type k acc ts\<close> is that sum written as one pass over the list: an
  entry adds its amount when its type is \<open>k\<close> and is skipped otherwise. The pages compute
  it with \<open>filter\<close> followed by \<open>reduce\<close>; the two are compared below.
\<close>

fun spec_sum_of_type :: "string \<Rightarrow> jsnum \<Rightarrow> Transaction list \<Rightarrow> jsnum" where
  "spec_sum_of_type k acc [] = acc"
| "spec_sum_of_type k acc (t # ts) =
     spec_sum_of_type k (if tx_type t = Some k then jadd acc (tx_amount t) else acc) ts"

section \<open>Sample data\<close>

text \<open>
  A holding of 10 units bought at 5, the same holding with quantity 0 and with a buy
  price of 0, and a cached portfolio entry for it whose last fetched price is 8.
\<close>

definition holding_10_at_5 :: Investment where
  "holding_10_at_5 =
     \<lparr>id_field = Fin 1, user_id = Fin 7, created_at = ''2024-01-01'', updated_at = Null,
      ticker = ''ACME'', quantity = Fin 10, avg_buy_price = Fin 5, asset_type = ''stock'',
      purchase_date = Undefined, notes_field = Undefined\<rparr>"

definition holding_0_at_5 :: Investment where
  "holding_0_at_5 = holding_10_at_5\<lparr>quantity := Fin 0\<rparr>"

definition holding_10_at_0 :: Investment where
  "holding_10_at_0 = holding_10_at_5\<lparr>avg_buy_price := Fin 0\<rparr>"

definition cached_entry :: InvestmentWithMarketData where
  "cached_entry =
     \<lparr>id_field = Fin 1, user_id = Fin 7, created_at = ''2024-01-01'', updated_at = Null,
      ticker = ''ACME'', quantity = Fin 4, avg_buy_price = Fin 5, asset_type = ''stock'',
      purchase_date = Undefined, notes_field = Undefined,
      current_price = Fin 8, market_value = Fin 32, profit_loss = Fin 12,
      profit_loss_percentage = Fin 60, last_updated = ''2024-02-01'', market_error = None\<rparr>"

definition portfolio_state :: InvestmentsState where
  "portfolio_state =
     \<lparr>loading = True, error = None, investments = [], portfolioWithMarketData = [cached_entry],
      investment = None\<rparr>"

text \<open>
  A budget of 100 with 50 spent, and the answer of the server to an edit that raises its
  amount to 200.
\<close>

definition groceries_progress :: BudgetWithProgress where
  "groceries_progress =
     \<lparr>id_field = Fin 3, user_id = Fin 7, created_at = ''2024-05-01'', updated_at = Null,
      category_id = Fin 2, amount = Fin 100, month = Fin 5, year = Fin 2024,
      category_name = ''Groceries'', spent_amount = Fin 50, remaining_amount = Fin 50,
      percentage_used = Fin 50\<rparr>"

definition groceries_raised :: Budget where
  "groceries_raised =
     \<lparr>id_field = Fin 3, user_id = Fin 7, created_at = ''2024-05-01'',
      updated_at = Value ''2024-05-20'', category_id = Fin 2, amount = Fin 200,
      month = Fin 5, year = Fin 2024\<rparr>"

definition budgets_state :: BudgetsState where
  "budgets_state =
     \<lparr>loading = True, error = None, budgets = [], budgetsWithProgress = [groceries_progress],
      budget = None\<rparr>"

text \<open>
  Budgets of 100 with a given amount spent, a list of four of them, and a list of one used
  to 100.4 percent and one used to exactly 100 percent.
\<close>

definition budget_of_100 :: "rat \<Rightarrow> rat \<Rightarrow> BudgetWithProgress" where
  "budget_of_100 n spent =
     \<lparr>id_field = Fin n, user_id = Fin 7, created_at = ''2024-05-01'', updated_at = Null,
      category_id = Fin n, amount = Fin 100, month = Fin 5, year = Fin 2024,
      category_name = ''Category'', spent_amount = Fin spent,
      remaining_amount = Fin (100 - spent), percentage_used = Fin spent\<rparr>"

definition four_budgets :: "BudgetWithProgress list" where
  "four_budgets = [budget_of_100 1 150, budget_of_100 2 90, budget_of_100 3 40, budget_of_100 4 120]"

definition slightly_over :: "BudgetWithProgress list" where
  "slightly_over = [budget_of_100 5 (502 / 5), budget_of_100 6 100]"

text \<open>One income and one expense transaction.\<close>

definition salary :: Transaction where
  "salary =
     \<lparr>id_field = Fin 11, user_id = Fin 7, created_at = ''2024-05-02'', updated_at = Undefined,
      tx_amount = Fin 120, is_income = True, tx_type = Some ''income''\<rparr>"

definition rent :: Transaction where
  "rent =
     \<lparr>id_field = Fin 12, user_id = Fin 7, created_at = ''2024-05-03'', updated_at = Undefined,
      tx_amount = Fin 50, is_income = False, tx_type = Some ''expense''\<rparr>"

text \<open>
  A stored goal, two answers to an edit of it (50 of 200, and 50 of a target of 0), a
  state that lists and selects the goal, and a state that selects it without listing it.
\<close>

definition emergency_fund :: GoalWithProgress where
  "emergency_fund =
     \<lparr>id_field = Fin 4, user_id = Fin 7, created_at = ''2024-03-01'', updated_at = Null,
      name = ''Emergency fund'', description = None, target_amount = Fin 200,
      current_amount = Fin 20, deadline = Null, status = ''active'',
      progress_percentage = Fin 10\<rparr>"

definition fund_50_of_200 :: Goal where
  "fund_50_of_200 =
     \<lparr>id_field = Fin 4, user_id = Fin 7, created_at = ''2024-03-01'', updated_at = Null,
      name = ''Emergency fund'', description = None, target_amount = Fin 200,
      current_amount = Fin 50, deadline = Null, status = ''active''\<rparr>"

definition fund_50_of_0 :: Goal where
  "fund_50_of_0 = fund_50_of_200\<lparr>target_amount := Fin 0\<rparr>"

definition goals_state :: GoalsState where
  "goals_state =
     \<lparr>loading = True, error = None, goals = [emergency_fund], goal = Some emergency_fund\<rparr>"

section \<open>Facts about numbers\<close>

definition selected_only :: GoalsState where
  "selected_only = \<lparr>loading = False, error = None, goals = [], goal = Some emergency_fund\<rparr>"

lemmas jsnum_defs = jmul_def jdiv_def jsub_def jgt_def jseq_def signed_zero_def signed_inf_def

lemma jseq_refl_of_match: "jseq a b \<Longrightarrow> jseq b b"
  by (auto simp: jseq_def)

lemma jgt_zero_divisor: "jgt a (Fin 0) \<Longrightarrow> \<not> is_zero a \<and> a \<noteq> NaN"
  by (cases a) (auto simp: jgt_def)

section \<open>Holding edits\<close>

lemma recalculate_match:
  "jseq (id_field e) (id_field p) \<Longrightarrow>
   current_price (recalculate p e) = current_price e \<and>
   last_updated (recalculate p e) = last_updated e \<and>
   id_field (recalculate p e) = id_field p \<and>
   market_value (recalculate p e) = jmul (quantity p) (current_price e) \<and>
   profit_loss (recalculate p e) =
     jsub (jmul (quantity p) (current_price e)) (jmul (quantity p) (avg_buy_price p)) \<and>
   profit_loss_percentage (recalculate p e) =
     jmul (jdiv (jsub (jmul (quantity p) (current_price e))
                      (jmul (quantity p) (avg_buy_price p)))
                (jmul (quantity p) (avg_buy_price p))) (Fin 100)"
  by (simp add: recalculate_def Let_def)

lemma recalculate_idem: "recalculate p (recalculate p e) = recalculate p e"
proof (cases "jseq (id_field e) (id_field p)")
  case True
  then have "jseq (id_field p) (id_field p)" by (rule jseq_refl_of_match)
  with True show ?thesis by (simp add: recalculate_def Let_def)
next
  case False
  then show ?thesis by (simp add: recalculate_def)
qed

lemma portfolio_nth_update:
  "i < length (portfolioWithMarketData s) \<Longrightarrow>
   portfolioWithMarketData (investmentsReducer s (updateInvestment (Fulfilled p))) ! i =
   recalculate p (portfolioWithMarketData s ! i)"
  by simp

text \<open>
  C2. When the payload of \<open>updateInvestment.fulfilled\<close> matches the entry at position \<open>i\<close>
  of \<open>portfolioWithMarketData\<close>, the recompute reads the price cached in that entry: the
  entry keeps its \<open>current_price\<close> and its \<open>last_updated\<close>, and its new \<open>market_value\<close> is
  the new quantity times the cached price (the cached market data is not reset).
\<close>

theorem updateInvestment_preserves_cached_price:
  assumes "i < length (portfolioWithMarketData s)"
    and "jseq (id_field (portfolioWithMarketData s ! i)) (id_field p)"
  shows "current_price (portfolioWithMarketData
            (investmentsReducer s (updateInvestment (Fulfilled p))) ! i) =
         current_price (portfolioWithMarketData s ! i) \<and>
         last_updated (portfolioWithMarketData
            (investmentsReducer s (updateInvestment (Fulfilled p))) ! i) =
         last_updated (portfolioWithMarketData s ! i) \<and>
         market_value (portfolioWithMarketData
            (investmentsReducer s (updateInvestment (Fulfilled p))) ! i) =
         jmul (quantity p) (current_price (portfolioWithMarketData s ! i))"
  using assms recalculate_match [of "portfolioWithMarketData s ! i" p]
  by (simp add: portfolio_nth_update del: investmentsReducer.simps)

text \<open>
  C2 at the sample data: the entry cached at price 8 keeps that price and its timestamp,
  and is worth 80 after the edit to 10 units.
\<close>

theorem updateInvestment_preserves_cached_price_witness:
  "(0::nat) < length (portfolioWithMarketData portfolio_state) \<and>
   jseq (id_field (portfolioWithMarketData portfolio_state ! 0)) (id_field holding_10_at_5) \<and>
   current_price (portfolioWithMarketData
      (investmentsReducer portfolio_state (updateInvestment (Fulfilled holding_10_at_5))) ! 0) = Fin 8 \<and>
   last_updated (portfolioWithMarketData
      (investmentsReducer portfolio_state (updateInvestment (Fulfilled holding_10_at_5))) ! 0) = ''2024-02-01'' \<and>
   market_value (portfolioWithMarketData
      (investmentsReducer portfolio_state (updateInvestment (Fulfilled holding_10_at_5))) ! 0) = Fin 80"
proof -
  have h1: "(0::nat) < length (portfolioWithMarketData portfolio_state)"
    by (simp add: portfolio_state_def)
  have h2: "jseq (id_field (portfolioWithMarketData portfolio_state ! 0)) (id_field holding_10_at_5)"
    by (simp add: portfolio_state_def cached_entry_def holding_10_at_5_def jseq_def)
  have v: "current_price (portfolioWithMarketData portfolio_state ! 0) = Fin 8"
          "last_updated (portfolioWithMarketData portfolio_state ! 0) = ''2024-02-01''"
          "jmul (quantity holding_10_at_5) (Fin 8) = Fin 80"
    by (simp_all add: portfolio_state_def cached_entry_def holding_10_at_5_def jmul_def)
  show ?thesis
    using h1 h2 updateInvestment_preserves_cached_price [OF h1 h2] by (simp add: v del: investmentsReducer.simps)
qed

text \<open>
  C3. For a payload \<open>p\<close> that matches a cached entry whose cached price is \<open>c\<close>, the new
  entry has \<open>market_value = p.quantity * c\<close> and
  \<open>profit_loss = market_value - p.quantity * p.avg_buy_price\<close>.
\<close>

theorem updateInvestment_market_value_profit_loss:
  assumes "i < length (portfolioWithMarketData s)"
    and "jseq (id_field (portfolioWithMarketData s ! i)) (id_field p)"
    and "current_price (portfolioWithMarketData s ! i) = c"
  shows "market_value (portfolioWithMarketData
            (investmentsReducer s (updateInvestment (Fulfilled p))) ! i) =
         jmul (quantity p) c \<and>
         profit_loss (portfolioWithMarketData
            (investmentsReducer s (updateInvestment (Fulfilled p))) ! i) =
         jsub (market_value (portfolioWithMarketData
                 (investmentsReducer s (updateInvestment (Fulfilled p))) ! i))
              (jmul (quantity p) (avg_buy_price p))"
  using assms recalculate_match [of "portfolioWithMarketData s ! i" p]
  by (simp add: portfolio_nth_update del: investmentsReducer.simps)

text \<open>C3 at the sample data: 10 units at 5, priced at 8, give 80 and a profit of 30.\<close>

theorem updateInvestment_market_value_profit_loss_witness:
  "(0::nat) < length (portfolioWithMarketData portfolio_state) \<and>
   jseq (id_field (portfolioWithMarketData portfolio_state ! 0)) (id_field holding_10_at_5) \<and>
   current_price (portfolioWithMarketData portfolio_state ! 0) = Fin 8 \<and>
   market_value (portfolioWithMarketData
      (investmentsReducer portfolio_state (updateInvestment (Fulfilled holding_10_at_5))) ! 0) = Fin 80 \<and>
   profit_loss (portfolioWithMarketData
      (investmentsReducer portfolio_state (updateInvestment (Fulfilled holding_10_at_5))) ! 0) = Fin 30"
proof -
  have h1: "(0::nat) < length (portfolioWithMarketData portfolio_state)"
    by (simp add: portfolio_state_def)
  have h2: "jseq (id_field (portfolioWithMarketData portfolio_state ! 0)) (id_field holding_10_at_5)"
    by (simp add: portfolio_state_def cached_entry_def holding_10_at_5_def jseq_def)
  have h3: "current_price (portfolioWithMarketData portfolio_state ! 0) = Fin 8"
    by (simp add: portfolio_state_def cached_entry_def)
  have v: "jmul (quantity holding_10_at_5) (Fin 8) = Fin 80"
          "jsub (Fin 80) (jmul (quantity holding_10_at_5) (avg_buy_price holding_10_at_5)) = Fin 30"
    by (simp_all add: holding_10_at_5_def jmul_def jsub_def)
  show ?thesis
    using h1 h2 h3 updateInvestment_market_value_profit_loss [OF h1 h2 h3] by (simp add: v del: investmentsReducer.simps)
qed

text \<open>
  C1. A holding whose quantity or average buy price is 0 must be rejected, so that the
  division of the recompute only ever sees a cost basis greater than 0. The reducer
  divides unguarded (the goal reducers test \<open>target_amount > 0\<close> before the same kind of
  division): an edit to quantity 0 and an edit to a buy price of 0 are both stored, no
  error is recorded, the cost basis is 0, and \<open>profit_loss_percentage\<close> becomes NaN in
  the first case and Infinity in the second.
\<close>

theorem updateInvestment_zero_cost_basis_divides:
  "jseq (id_field (portfolioWithMarketData portfolio_state ! 0)) (id_field holding_0_at_5) \<and>
   jmul (quantity holding_0_at_5) (avg_buy_price holding_0_at_5) = Fin 0 \<and>
   error (investmentsReducer portfolio_state (updateInvestment (Fulfilled holding_0_at_5))) = None \<and>
   quantity (portfolioWithMarketData
      (investmentsReducer portfolio_state (updateInvestment (Fulfilled holding_0_at_5))) ! 0) = Fin 0 \<and>
   profit_loss_percentage (portfolioWithMarketData
      (investmentsReducer portfolio_state (updateInvestment (Fulfilled holding_0_at_5))) ! 0) = NaN \<and>
   jseq (id_field (portfolioWithMarketData portfolio_state ! 0)) (id_field holding_10_at_0) \<and>
   jmul (quantity holding_10_at_0) (avg_buy_price holding_10_at_0) = Fin 0 \<and>
   error (investmentsReducer portfolio_state (updateInvestment (Fulfilled holding_10_at_0))) = None \<and>
   avg_buy_price (portfolioWithMarketData
      (investmentsReducer portfolio_state (updateInvestment (Fulfilled holding_10_at_0))) ! 0) = Fin 0 \<and>
   profit_loss_percentage (portfolioWithMarketData
      (investmentsReducer portfolio_state (updateInvestment (Fulfilled holding_10_at_0))) ! 0) = PInf"
  by (simp add: portfolio_state_def cached_entry_def holding_0_at_5_def holding_10_at_0_def
        holding_10_at_5_def recalculate_def Let_def jsnum_defs)

text \<open>
  C8. Applying the \<open>updateInvestment.fulfilled\<close> reducer a second time with the same action
  gives the state the first application gave. The reducer is a function of the state and
  the action alone, so equal inputs give equal outputs.
\<close>

theorem updateInvestment_fulfilled_idempotent:
  "investmentsReducer (investmentsReducer s (updateInvestment (Fulfilled p)))
     (updateInvestment (Fulfilled p)) =
   investmentsReducer s (updateInvestment (Fulfilled p))"
proof -
  have inv: "(\<lambda>i::Investment. if jseq (id_field i) (id_field p) then p else i) \<circ>
             (\<lambda>i. if jseq (id_field i) (id_field p) then p else i) =
             (\<lambda>i. if jseq (id_field i) (id_field p) then p else i)"
    by (auto simp: fun_eq_iff dest: jseq_refl_of_match)
  have pf: "recalculate p \<circ> recalculate p = recalculate p"
    by (simp add: fun_eq_iff recalculate_idem)
  show ?thesis
    by (cases "investment s")
       (auto simp: current_investment_is_def inv pf dest: jseq_refl_of_match)
qed

section \<open>Budget edits\<close>

text \<open>
  C4. A progress entry is expected to satisfy \<open>remaining_amount = amount - spent_amount\<close>
  after every operation of the slice. \<open>updateBudget.fulfilled\<close> copies the new \<open>amount\<close>
  into the entry and leaves \<open>remaining_amount\<close> as it was: the sample entry (100, spent
  50, remaining 50) satisfies the relation before the edit and, with amount 200, spent 50
  and remaining 50, no longer after it.
\<close>

theorem updateBudget_leaves_remaining_stale:
  "remaining_consistent (budgetsWithProgress budgets_state ! 0) \<and>
   jseq (id_field (budgetsWithProgress budgets_state ! 0)) (id_field groceries_raised) \<and>
   amount (budgetsWithProgress
     (budgetsReducer budgets_state (updateBudget (Fulfilled groceries_raised))) ! 0) = Fin 200 \<and>
   spent_amount (budgetsWithProgress
     (budgetsReducer budgets_state (updateBudget (Fulfilled groceries_raised))) ! 0) = Fin 50 \<and>
   remaining_amount (budgetsWithProgress
     (budgetsReducer budgets_state (updateBudget (Fulfilled groceries_raised))) ! 0) = Fin 50 \<and>
   \<not> remaining_consistent (budgetsWithProgress
     (budgetsReducer budgets_state (updateBudget (Fulfilled groceries_raised))) ! 0)"
  by (simp add: budgets_state_def groceries_progress_def groceries_raised_def
        remaining_consistent_def merge_budget_def spread_budget_def jsnum_defs)

section \<open>Rejected requests\<close>

text \<open>
  C10. Every \<open>rejected\<close> case of the investments slice and of the budgets slice returns
  the state with \<open>loading\<close> set to false and \<open>error\<close> set to the payload of the rejection;
  every other field (the cached lists and the selected entity) is the one of the state
  before.
\<close>

theorem rejected_changes_only_loading_and_error:
  "investmentsReducer s (getInvestments (Rejected e)) = s\<lparr>loading := False, error := Some e\<rparr> \<and>
   investmentsReducer s (getPortfolioWithMarketData (Rejected e)) =
     s\<lparr>loading := False, error := Some e\<rparr> \<and>
   investmentsReducer s (getInvestment (Rejected e)) = s\<lparr>loading := False, error := Some e\<rparr> \<and>
   investmentsReducer s (createInvestment (Rejected e)) = s\<lparr>loading := False, error := Some e\<rparr> \<and>
   investmentsReducer s (updateInvestment (Rejected e)) = s\<lparr>loading := False, error := Some e\<rparr> \<and>
   investmentsReducer s (deleteInvestment (Rejected e)) = s\<lparr>loading := False, error := Some e\<rparr> \<and>
   budgetsReducer b (getBudgets (Rejected e)) = b\<lparr>loading := False, error := Some e\<rparr> \<and>
   budgetsReducer b (getBudgetsWithProgress (Rejected e)) =
     b\<lparr>loading := False, error := Some e\<rparr> \<and>
   budgetsReducer b (getBudget (Rejected e)) = b\<lparr>loading := False, error := Some e\<rparr> \<and>
   budgetsReducer b (createBudget (Rejected e)) = b\<lparr>loading := False, error := Some e\<rparr> \<and>
   budgetsReducer b (updateBudget (Rejected e)) = b\<lparr>loading := False, error := Some e\<rparr> \<and>
   budgetsReducer b (deleteBudget (Rejected e)) = b\<lparr>loading := False, error := Some e\<rparr>"
  by simp

section \<open>Goal progress\<close>

text \<open>
  C6. The progress percentage that \<open>createGoal.fulfilled\<close> stores in the new goal, and
  that \<open>updateGoal.fulfilled\<close> stores in every matching goal of the list and in the
  selected goal when its id matches, is \<open>(current_amount / target_amount) * 100\<close> only
  when \<open>target_amount > 0\<close>, and then the divisor is not zero; for every other target
  (zero, negative, NaN) it is 0 and no division takes place.
\<close>

theorem goal_progress_percentage_guarded:
  "progress_percentage (last (goals (goalsReducer s (createGoal (Fulfilled p))))) =
     progressPercentage p \<and>
   length (goals (goalsReducer s (createGoal (Fulfilled p)))) = Suc (length (goals s)) \<and>
   (\<forall>i < length (goals s). jseq (id_field (goals s ! i)) (id_field p) \<longrightarrow>
      progress_percentage (goals (goalsReducer s (updateGoal (Fulfilled p))) ! i) =
        progressPercentage p) \<and>
   (\<forall>g. goal s = Some g \<and> jseq (id_field g) (id_field p) \<longrightarrow>
      map_option progress_percentage (goal (goalsReducer s (updateGoal (Fulfilled p)))) =
        Some (progressPercentage p)) \<and>
   (jgt (target_amount p) (Fin 0) \<longrightarrow>
      progressPercentage p = jmul (jdiv (current_amount p) (target_amount p)) (Fin 100) \<and>
      \<not> is_zero (target_amount p) \<and> target_amount p \<noteq> NaN) \<and>
   (\<not> jgt (target_amount p) (Fin 0) \<longrightarrow> progressPercentage p = Fin 0)"
proof -
  have c: "progress_percentage (last (goals (goalsReducer s (createGoal (Fulfilled p))))) =
           progressPercentage p"
    by (simp add: with_progress_def)
  have l: "length (goals (goalsReducer s (createGoal (Fulfilled p)))) = Suc (length (goals s))"
    by simp
  have u: "\<forall>i < length (goals s). jseq (id_field (goals s ! i)) (id_field p) \<longrightarrow>
      progress_percentage (goals (goalsReducer s (updateGoal (Fulfilled p))) ! i) =
        progressPercentage p"
    by (simp add: with_progress_def)
  have g: "\<forall>g. goal s = Some g \<and> jseq (id_field g) (id_field p) \<longrightarrow>
      map_option progress_percentage (goal (goalsReducer s (updateGoal (Fulfilled p)))) =
        Some (progressPercentage p)"
    by (simp add: with_progress_def)
  have d: "jgt (target_amount p) (Fin 0) \<longrightarrow>
            progressPercentage p = jmul (jdiv (current_amount p) (target_amount p)) (Fin 100) \<and>
            \<not> is_zero (target_amount p) \<and> target_amount p \<noteq> NaN"
    using jgt_zero_divisor [of "target_amount p"] by (simp add: progressPercentage_def)
  have z: "\<not> jgt (target_amount p) (Fin 0) \<longrightarrow> progressPercentage p = Fin 0"
    by (simp add: progressPercentage_def)
  from c l u g d z show ?thesis by blast
qed

text \<open>
  C6 at the sample data: 50 of 200 is 25 percent and 50 of a target of 0 is 0 percent, for
  a goal created in the initial state, for a goal edited in the list, and for a
  selected goal that is not in the list.
\<close>

theorem goal_progress_percentage_guarded_witness:
  "(0::nat) < length (goals goals_state) \<and>
   jseq (id_field (goals goals_state ! 0)) (id_field fund_50_of_200) \<and>
   jseq (id_field (goals goals_state ! 0)) (id_field fund_50_of_0) \<and>
   goal selected_only = Some emergency_fund \<and> goals selected_only = [] \<and>
   jseq (id_field emergency_fund) (id_field fund_50_of_0) \<and>
   jgt (target_amount fund_50_of_200) (Fin 0) \<and>
   \<not> jgt (target_amount fund_50_of_0) (Fin 0) \<and>
   progress_percentage (goals (goalsReducer goals_state (updateGoal (Fulfilled fund_50_of_200))) ! 0) =
     Fin 25 \<and>
   progress_percentage (goals (goalsReducer goals_state (updateGoal (Fulfilled fund_50_of_0))) ! 0) =
     Fin 0 \<and>
   progress_percentage
     (last (goals (goalsReducer goals_initialState (createGoal (Fulfilled fund_50_of_0))))) = Fin 0 \<and>
   progress_percentage
     (last (goals (goalsReducer goals_initialState (createGoal (Fulfilled fund_50_of_200))))) = Fin 25 \<and>
   map_option progress_percentage
     (goal (goalsReducer selected_only (updateGoal (Fulfilled fund_50_of_0)))) = Some (Fin 0)"
proof -
  have h1: "(0::nat) < length (goals goals_state)" by (simp add: goals_state_def)
  have h2: "jseq (id_field (goals goals_state ! 0)) (id_field fund_50_of_200)"
    by (simp add: goals_state_def emergency_fund_def fund_50_of_200_def jseq_def)
  have h3: "jseq (id_field (goals goals_state ! 0)) (id_field fund_50_of_0)"
    by (simp add: goals_state_def emergency_fund_def fund_50_of_0_def fund_50_of_200_def jseq_def)
  have h4: "goal selected_only = Some emergency_fund" "goals selected_only = []"
    by (simp_all add: selected_only_def)
  have h5: "jseq (id_field emergency_fund) (id_field fund_50_of_0)"
    by (simp add: emergency_fund_def fund_50_of_0_def fund_50_of_200_def jseq_def)
  have h6: "jgt (target_amount fund_50_of_200) (Fin 0)"
    by (simp add: fund_50_of_200_def jgt_def)
  have h7: "\<not> jgt (target_amount fund_50_of_0) (Fin 0)"
    by (simp add: fund_50_of_0_def fund_50_of_200_def jgt_def)
  have v: "jmul (jdiv (current_amount fund_50_of_200) (target_amount fund_50_of_200)) (Fin 100) =
           Fin 25"
    by (simp add: fund_50_of_200_def jmul_def jdiv_def)
  note A = goal_progress_percentage_guarded [of goals_state fund_50_of_200]
  note B = goal_progress_percentage_guarded [of goals_state fund_50_of_0]
  note C = goal_progress_percentage_guarded [of goals_initialState fund_50_of_0]
  note D = goal_progress_percentage_guarded [of goals_initialState fund_50_of_200]
  note E = goal_progress_percentage_guarded [of selected_only fund_50_of_0]
  have pa: "progressPercentage fund_50_of_200 = Fin 25"
    using A h6 v by simp
  have pb: "progressPercentage fund_50_of_0 = Fin 0"
    using B h7 by simp
  from A h1 h2 have a2: "progress_percentage
      (goals (goalsReducer goals_state (updateGoal (Fulfilled fund_50_of_200))) ! 0) = Fin 25"
    unfolding pa by blast
  from B h1 h3 have b2: "progress_percentage
      (goals (goalsReducer goals_state (updateGoal (Fulfilled fund_50_of_0))) ! 0) = Fin 0"
    unfolding pb by blast
  from C have c1: "progress_percentage
      (last (goals (goalsReducer goals_initialState (createGoal (Fulfilled fund_50_of_0))))) = Fin 0"
    unfolding pb by blast
  from D have d1: "progress_percentage
      (last (goals (goalsReducer goals_initialState (createGoal (Fulfilled fund_50_of_200))))) =
      Fin 25"
    unfolding pa by blast
  from E h4 h5 have e3: "map_option progress_percentage
      (goal (goalsReducer selected_only (updateGoal (Fulfilled fund_50_of_0)))) = Some (Fin 0)"
    unfolding pb by blast
  from h1 h2 h3 h4 h5 h6 h7 a2 b2 c1 d1 e3 show ?thesis by blast
qed

section \<open>Totals of the pages\<close>

lemma foldl_filter_spec_sum:
  "foldl (\<lambda>sum t. jadd sum (tx_amount t)) acc (filter (\<lambda>t. tx_type t = Some k) ts) =
   spec_sum_of_type k acc ts"
  by (induction ts arbitrary: acc) simp_all

lemma total_of_type_spec: "total_of_type k ts = spec_sum_of_type k (Fin 0) ts"
  by (simp add: total_of_type_def foldl_filter_spec_sum)

lemma total_of_type_ignores_other_types:
  "k \<noteq> k' \<Longrightarrow> total_of_type k (filter (\<lambda>t. tx_type t \<noteq> Some k') ts) = total_of_type k ts"
proof -
  assume "k \<noteq> k'"
  then have "filter (\<lambda>t. tx_type t = Some k) (filter (\<lambda>t. tx_type t \<noteq> Some k') ts) =
             filter (\<lambda>t. tx_type t = Some k) ts"
    by (induction ts) auto
  then show ?thesis by (simp only: total_of_type_def)
qed

text \<open>
  C5, as the specification states it for all lists, fails on the Dashboard: after the
  totals of a month with an expense of 50 were set, a refresh with an empty list leaves
  \<open>totalExpense\<close> at 50, while the expenses of the empty list sum to 0.
\<close>

theorem dashboard_stale_expense_on_empty_list:
  "total_of_type ''expense'' [] = Fin 0 \<and>
   totalExpense (summary_effect [salary, rent] [] Summary_initial) = Fin 50 \<and>
   totalExpense (summary_effect [] [] (summary_effect [salary, rent] [] Summary_initial)) = Fin 50"
  by (simp add: summary_effect_def Let_def total_of_type_def salary_def rent_def Summary_initial_def)

text \<open>
  C5. For every non-empty list the Dashboard sets \<open>totalExpense\<close> to the sum of the
  amounts of exactly the entries of type \<open>expense\<close> and \<open>totalIncome\<close> to the sum of
  exactly the entries of type \<open>income\<close>. The totals of the Transactions page are these
  sums for every list, and removing the entries of the other type changes neither.
\<close>

theorem totals_sum_entries_of_their_type:
  assumes "transactions \<noteq> []"
  shows "totalExpense (summary_effect transactions portfolio st) =
           spec_sum_of_type ''expense'' (Fin 0) transactions \<and>
         totalIncome (summary_effect transactions portfolio st) =
           spec_sum_of_type ''income'' (Fin 0) transactions \<and>
         Transactions_totalExpense filteredTransactions =
           spec_sum_of_type ''expense'' (Fin 0) filteredTransactions \<and>
         Transactions_totalIncome filteredTransactions =
           spec_sum_of_type ''income'' (Fin 0) filteredTransactions \<and>
         Transactions_totalExpense
             (filter (\<lambda>t. tx_type t \<noteq> Some ''income'') filteredTransactions) =
           Transactions_totalExpense filteredTransactions \<and>
         Transactions_totalIncome
             (filter (\<lambda>t. tx_type t \<noteq> Some ''expense'') filteredTransactions) =
           Transactions_totalIncome filteredTransactions"
proof -
  have dash: "totalExpense (summary_effect transactions portfolio st) =
                total_of_type ''expense'' transactions"
             "totalIncome (summary_effect transactions portfolio st) =
                total_of_type ''income'' transactions"
    using assms by (simp_all add: summary_effect_def Let_def)
  have excl: "total_of_type ''expense''
                (filter (\<lambda>t. tx_type t \<noteq> Some ''income'') filteredTransactions) =
              total_of_type ''expense'' filteredTransactions"
             "total_of_type ''income''
                (filter (\<lambda>t. tx_type t \<noteq> Some ''expense'') filteredTransactions) =
              total_of_type ''income'' filteredTransactions"
    by (simp_all add: total_of_type_ignores_other_types)
  show ?thesis
    using dash excl
    by (simp add: Transactions_totalExpense_def Transactions_totalIncome_def total_of_type_spec)
qed

text \<open>C5 at the sample data: an income of 120 and an expense of 50.\<close>

theorem totals_sum_entries_of_their_type_witness:
  "[salary, rent] \<noteq> [] \<and>
   totalExpense (summary_effect [salary, rent] [] Summary_initial) = Fin 50 \<and>
   totalIncome (summary_effect [salary, rent] [] Summary_initial) = Fin 120 \<and>
   Transactions_totalExpense [salary, rent] = Fin 50 \<and>
   Transactions_totalIncome [salary, rent] = Fin 120"
proof -
  have h: "[salary, rent] \<noteq> []" by simp
  have v: "spec_sum_of_type ''expense'' (Fin 0) [salary, rent] = Fin 50"
          "spec_sum_of_type ''income'' (Fin 0) [salary, rent] = Fin 120"
    by (simp_all add: salary_def rent_def)
  show ?thesis
    using totals_sum_entries_of_their_type [OF h, of "[]" Summary_initial "[salary, rent]"]
    by (simp only: v) simp
qed

text \<open>
  C9. The Dashboard recomputes its totals only for a non-empty list: with an empty
  transactions list \<open>totalIncome\<close>, \<open>totalExpense\<close> and \<open>netSavings\<close> keep their previous
  values, and with an empty portfolio \<open>totalPortfolioValue\<close> and \<open>totalPortfolioProfit\<close>
  keep theirs, so the totals can be older than the lists shown.
\<close>

theorem summary_kept_on_empty_lists:
  "totalIncome (summary_effect [] portfolio st) = totalIncome st \<and>
   totalExpense (summary_effect [] portfolio st) = totalExpense st \<and>
   netSavings (summary_effect [] portfolio st) = netSavings st \<and>
   totalPortfolioValue (summary_effect transactions [] st) = totalPortfolioValue st \<and>
   totalPortfolioProfit (summary_effect transactions [] st) = totalPortfolioProfit st \<and>
   summary_effect [] [] st = st"
  by (simp add: summary_effect_def Let_def)

section \<open>The budget progress panel\<close>

lemma digit_char_value: "d < 10 \<Longrightarrow> of_char (''0123456789'' ! d) - 48 = (d::nat)"
proof -
  assume "d < 10"
  then have "d \<in> {0, 1, 2, 3, 4, 5, 6, 7, 8, 9}" by auto
  then show ?thesis by auto
qed

lemma value_of_digits_append:
  "value_of_digits (s @ [c]) = 10 * value_of_digits s + (of_char c - 48)"
  by (simp add: value_of_digits_def)

lemma value_of_digits_digits: "value_of_digits (digits n) = n"
proof (induction n rule: digits.induct)
  case (1 n)
  show ?case
  proof (cases "n < 10")
    case True
    then show ?thesis
      using digit_char_value [of n]
      by (simp add: digits.simps [of n] value_of_digits_def)
  next
    case False
    then have "value_of_digits (digits n) =
               10 * value_of_digits (digits (n div 10)) + (of_char (''0123456789'' ! (n mod 10)) - 48)"
      by (simp add: digits.simps [of n] value_of_digits_append)
    also have "\<dots> = 10 * (n div 10) + n mod 10"
      using "1.IH" [OF False] digit_char_value [of "n mod 10"] by simp
    finally show ?thesis by simp
  qed
qed

lemma toFixed0_in_range:
  "0 \<le> r \<Longrightarrow> r < 10 ^ 21 \<Longrightarrow> toFixed0 (Fin r) = Plain (digits (nat \<lfloor>r + 1 / 2\<rfloor>))"
  by (simp add: Let_def)

lemma Math_min_100: "Math_min (Fin r) (Fin 100) = Fin (min r 100)"
  by (auto simp: Math_min_def jgt_def min_def)

lemma round_samples:
  "\<lfloor>(1009::rat) / 10\<rfloor> = 100" "\<lfloor>(201::rat) / 2\<rfloor> = 100" "\<lfloor>(301::rat) / 2\<rfloor> = 150"
  "\<lfloor>(181::rat) / 2\<rfloor> = 90" "\<lfloor>(81::rat) / 2\<rfloor> = 40"
  by (simp_all add: floor_eq_iff)

lemma digits_samples:
  "digits 100 = ''100''" "digits 150 = ''150''" "digits 90 = ''90''" "digits 40 = ''40''"
  by (simp_all add: digits.simps [of 100] digits.simps [of 150] digits.simps [of 15]
        digits.simps [of 90] digits.simps [of 40] digits.simps [of 10] digits.simps [of 9]
        digits.simps [of 4] digits.simps [of 1] digits.simps [of "Suc 0"])

lemma round_half_up_near:
  assumes "0 \<le> (r::rat)"
  shows "\<bar>of_nat (nat \<lfloor>r + 1 / 2\<rfloor>) - r\<bar> \<le> 1 / 2"
proof -
  have nn: "0 \<le> \<lfloor>r + 1 / 2\<rfloor>" using assms by simp
  then have e: "(of_nat (nat \<lfloor>r + 1 / 2\<rfloor>) :: rat) = of_int \<lfloor>r + 1 / 2\<rfloor>" by simp
  have "of_int \<lfloor>r + 1 / 2\<rfloor> \<le> r + 1 / 2" by linarith
  moreover have "r + 1 / 2 < of_int \<lfloor>r + 1 / 2\<rfloor> + 1" by linarith
  ultimately show ?thesis unfolding e by linarith
qed

lemma round_half_up_mono:
  assumes "of_nat k \<le> (r::rat)"
  shows "k \<le> nat \<lfloor>r + 1 / 2\<rfloor>"
proof -
  have "of_int (int k) \<le> r + 1 / 2" using assms by simp
  then have "int k \<le> \<lfloor>r + 1 / 2\<rfloor>" by (simp only: le_floor_iff)
  then show ?thesis by simp
qed

text \<open>
  C7, as the specification states it, fails in two ways. The text of a card is
  \<open>percentage_used.toFixed(0)\<close>, not the stored value: a budget used to 100.4 percent
  shows \<open>100% used\<close>, the same text as a budget used to exactly 100 percent. And the
  panel renders \<open>budgetsWithProgress.slice(0, 3)\<close>, so a fourth budget (here 120 percent)
  has no card, and while the budgets are loading no card is shown at all.
\<close>

theorem dashboard_rounds_and_omits:
  "jgt (percentage_used (slightly_over ! 0)) (Fin 100) \<and>
   percentage_used (slightly_over ! 0) = Fin (502 / 5) \<and>
   percentage_used (slightly_over ! 1) = Fin 100 \<and>
   map used_text (cards_of (budget_panel False slightly_over)) =
     [Plain ''100% used'', Plain ''100% used''] \<and>
   length four_budgets = 4 \<and>
   percentage_used (four_budgets ! 3) = Fin 120 \<and>
   map used_text (cards_of (budget_panel False four_budgets)) =
     [Plain ''150% used'', Plain ''90% used'', Plain ''40% used''] \<and>
   map card_key (cards_of (budget_panel False four_budgets)) = [Fin 1, Fin 2, Fin 3] \<and>
   cards_of (budget_panel True four_budgets) = []"
  by (simp add: slightly_over_def four_budgets_def budget_of_100_def budget_panel_def
        budget_card_def Let_def jgt_def round_samples digits_samples)

text \<open>
  C7. The percentage is not clamped before it is shown: when the budgets are not loading,
  the card of each of the first three budgets shows \<open>percentage_used.toFixed(0)\<close>
  followed by \<open>% used\<close>. For a percentage from 0 up to \<open>10^21\<close> that is the nearest whole
  number (the upper one of two equally near), whose digits read back as that number; it
  is within one half of the stored value and is at least 101 for every stored value from
  101 on. Only the width of the bar is \<open>min(percentage_used, 100)\<close>. The panel is
  computed from the list and returns nothing but the cards, so the stored field stays as
  it is.
\<close>

theorem dashboard_card_shows_rounded_percentage:
  assumes "\<not> budgetsLoading" and "i < length bwp" and "i < 3"
  shows "budget_panel budgetsLoading bwp = Cards (cards_of (budget_panel budgetsLoading bwp)) \<and>
         length (cards_of (budget_panel budgetsLoading bwp)) = min 3 (length bwp) \<and>
         card_key (cards_of (budget_panel budgetsLoading bwp) ! i) = id_field (bwp ! i) \<and>
         used_text (cards_of (budget_panel budgetsLoading bwp) ! i) =
           text_append (toFixed0 (percentage_used (bwp ! i))) ''% used'' \<and>
         bar_width (cards_of (budget_panel budgetsLoading bwp) ! i) =
           AroundToString [] (Math_min (percentage_used (bwp ! i)) (Fin 100)) ''%'' \<and>
         (\<forall>r. percentage_used (bwp ! i) = Fin r \<and> 0 \<le> r \<and> r < 10 ^ 21 \<longrightarrow>
            used_text (cards_of (budget_panel budgetsLoading bwp) ! i) =
              Plain (digits (nat \<lfloor>r + 1 / 2\<rfloor>) @ ''% used'') \<and>
            value_of_digits (digits (nat \<lfloor>r + 1 / 2\<rfloor>)) = nat \<lfloor>r + 1 / 2\<rfloor> \<and>
            \<bar>of_nat (nat \<lfloor>r + 1 / 2\<rfloor>) - r\<bar> \<le> 1 / 2 \<and>
            bar_width (cards_of (budget_panel budgetsLoading bwp) ! i) =
              AroundToString [] (Fin (min r 100)) ''%'' \<and>
            (101 \<le> r \<longrightarrow> 101 \<le> nat \<lfloor>r + 1 / 2\<rfloor>))"
proof -
  have p: "budget_panel budgetsLoading bwp = Cards (map budget_card (take 3 bwp))"
    using assms by (auto simp: budget_panel_def)
  have c: "cards_of (budget_panel budgetsLoading bwp) = map budget_card (take 3 bwp)"
    by (simp only: p cards_of.simps)
  have n: "cards_of (budget_panel budgetsLoading bwp) ! i = budget_card (bwp ! i)"
    using assms(2,3) by (simp add: c)
  have l: "length (cards_of (budget_panel budgetsLoading bwp)) = min 3 (length bwp)"
    by (simp add: c min.commute)
  have q: "budget_panel budgetsLoading bwp = Cards (cards_of (budget_panel budgetsLoading bwp))"
    by (simp only: c) (rule p)
  have f: "card_key (budget_card (bwp ! i)) = id_field (bwp ! i)"
          "used_text (budget_card (bwp ! i)) =
             text_append (toFixed0 (percentage_used (bwp ! i))) ''% used''"
          "bar_width (budget_card (bwp ! i)) =
             AroundToString [] (Math_min (percentage_used (bwp ! i)) (Fin 100)) ''%''"
    by (simp_all add: budget_card_def)
  have r: "\<forall>r. percentage_used (bwp ! i) = Fin r \<and> 0 \<le> r \<and> r < 10 ^ 21 \<longrightarrow>
            used_text (budget_card (bwp ! i)) =
              Plain (digits (nat \<lfloor>r + 1 / 2\<rfloor>) @ ''% used'') \<and>
            value_of_digits (digits (nat \<lfloor>r + 1 / 2\<rfloor>)) = nat \<lfloor>r + 1 / 2\<rfloor> \<and>
            \<bar>of_nat (nat \<lfloor>r + 1 / 2\<rfloor>) - r\<bar> \<le> 1 / 2 \<and>
            bar_width (budget_card (bwp ! i)) = AroundToString [] (Fin (min r 100)) ''%'' \<and>
            (101 \<le> r \<longrightarrow> 101 \<le> nat \<lfloor>r + 1 / 2\<rfloor>)"
  proof (intro allI impI)
    fix r :: rat
    assume h: "percentage_used (bwp ! i) = Fin r \<and> 0 \<le> r \<and> r < 10 ^ 21"
    then have pr: "percentage_used (bwp ! i) = Fin r" and r0: "0 \<le> r" and r1: "r < 10 ^ 21"
      by simp_all
    have t: "used_text (budget_card (bwp ! i)) =
             Plain (digits (nat \<lfloor>r + 1 / 2\<rfloor>) @ ''% used'')"
      by (simp only: f pr toFixed0_in_range [OF r0 r1] text_append.simps)
    have w: "bar_width (budget_card (bwp ! i)) = AroundToString [] (Fin (min r 100)) ''%''"
      by (simp only: f pr Math_min_100)
    have m: "101 \<le> r \<longrightarrow> 101 \<le> nat \<lfloor>r + 1 / 2\<rfloor>"
      using round_half_up_mono [of 101 r] by simp
    from t w m value_of_digits_digits round_half_up_near [OF r0]
    show "used_text (budget_card (bwp ! i)) =
              Plain (digits (nat \<lfloor>r + 1 / 2\<rfloor>) @ ''% used'') \<and>
            value_of_digits (digits (nat \<lfloor>r + 1 / 2\<rfloor>)) = nat \<lfloor>r + 1 / 2\<rfloor> \<and>
            \<bar>of_nat (nat \<lfloor>r + 1 / 2\<rfloor>) - r\<bar> \<le> 1 / 2 \<and>
            bar_width (budget_card (bwp ! i)) = AroundToString [] (Fin (min r 100)) ''%'' \<and>
            (101 \<le> r \<longrightarrow> 101 \<le> nat \<lfloor>r + 1 / 2\<rfloor>)"
      by blast
  qed
  from q l f r show ?thesis unfolding n by blast
qed

text \<open>
  C7 at the sample data: a budget used to 150 percent shows \<open>150% used\<close> over a bar of
  width 100.
\<close>

theorem dashboard_card_shows_rounded_percentage_witness:
  "\<not> False \<and> (0::nat) < length four_budgets \<and> (0::nat) < 3 \<and>
   percentage_used (four_budgets ! 0) = Fin 150 \<and> (0::rat) \<le> 150 \<and> (150::rat) < 10 ^ 21 \<and>
   (101::rat) \<le> 150 \<and>
   used_text (cards_of (budget_panel False four_budgets) ! 0) = Plain ''150% used'' \<and>
   bar_width (cards_of (budget_panel False four_budgets) ! 0) = AroundToString [] (Fin 100) ''%''"
proof -
  have h1: "\<not> False" by simp
  have h2: "(0::nat) < length four_budgets" by (simp add: four_budgets_def)
  have h3: "(0::nat) < 3" by simp
  have h4: "percentage_used (four_budgets ! 0) = Fin 150"
    by (simp add: four_budgets_def budget_of_100_def)
  have h5: "(0::rat) \<le> 150" "(150::rat) < 10 ^ 21" "(101::rat) \<le> 150" by simp_all
  have v: "digits (nat \<lfloor>(150::rat) + 1 / 2\<rfloor>) @ ''% used'' = ''150% used''"
          "min (150::rat) 100 = 100"
    by (simp_all add: round_samples digits_samples)
  note T = dashboard_card_shows_rounded_percentage [OF h1 h2 h3]
  from T h4 h5 have
    "used_text (cards_of (budget_panel False four_budgets) ! 0) =
       Plain (digits (nat \<lfloor>(150::rat) + 1 / 2\<rfloor>) @ ''% used'')"
    "bar_width (cards_of (budget_panel False four_budgets) ! 0) =
       AroundToString [] (Fin (min 150 100)) ''%''"
    by blast+
  then have r: "used_text (cards_of (budget_panel False four_budgets) ! 0) = Plain ''150% used''"
    "bar_width (cards_of (budget_panel False four_budgets) ! 0) = AroundToString [] (Fin 100) ''%''"
    unfolding v by simp_all
  from h2 h4 h5 r show ?thesis by simp
qed

end
